theory Spec2Isabelle
  imports Main "HOL-Library.AList"
begin

section \<open>Python values shared by the embedded modules\<close>

text \<open>
  Strings are lists of characters (code points below 256).  Every Python exception that
  the embedded functions can raise is a constructor of \<open>error\<close>; a function that can
  raise returns \<open>error + 'a\<close> with \<open>Inl\<close> for the exception.
\<close>

datatype error =
    IndexError | KeyError string | AssertionError | FileNotFoundError | OperationalError

text \<open>\<open>xs[i]\<close> for a non-negative literal index.\<close>

definition getitem :: "'a list \<Rightarrow> nat \<Rightarrow> error + 'a" where
  "getitem xs i = (if i < length xs then Inr (xs ! i) else Inl IndexError)"

text \<open>\<open>s.startswith(p)\<close> and \<open>s.removeprefix(p)\<close>.\<close>

definition startswith :: "string \<Rightarrow> string \<Rightarrow> bool" where
  "startswith s p = (take (length p) s = p)"

definition removeprefix :: "string \<Rightarrow> string \<Rightarrow> string" where
  "removeprefix s p = (if startswith s p then drop (length p) s else s)"

text \<open>\<open>s.partition(sep)\<close>: the text before the first occurrence of \<open>sep\<close>, the separator
  itself (empty when it does not occur) and the text after it.\<close>

fun partition_str :: "string \<Rightarrow> string \<Rightarrow> string \<times> string \<times> string" where
  "partition_str [] sep = ([], [], [])"
| "partition_str (c # cs) sep =
     (if startswith (c # cs) sep then ([], sep, drop (length sep) (c # cs))
      else (case partition_str cs sep of (a, h, b) \<Rightarrow> (c # a, h, b)))"

text \<open>\<open>s.split(sep)\<close> for a non-empty separator: \<open>acc\<close> holds the current piece, reversed.\<close>

function split_from :: "string \<Rightarrow> string \<Rightarrow> string \<Rightarrow> string list" where
  "split_from sep acc [] = [rev acc]"
| "split_from sep acc (c # cs) =
     (if sep \<noteq> [] \<and> startswith (c # cs) sep
      then rev acc # split_from sep [] (drop (length sep) (c # cs))
      else split_from sep (c # acc) cs)"
  by pat_completeness auto
termination
  by (relation "measure (\<lambda>(sep, acc, s). length s)") auto

definition split_str :: "string \<Rightarrow> string \<Rightarrow> string list" where
  "split_str s sep = split_from sep [] s"

text \<open>\<open>s.split(sep, 1)\<close>: at most one split, at the first occurrence of \<open>sep\<close>.\<close>

definition split1 :: "string \<Rightarrow> string \<Rightarrow> string list" where
  "split1 s sep = (case partition_str s sep of (a, h, b) \<Rightarrow> if h = [] then [a] else [a, b])"

text \<open>\<open>sep.join(xs)\<close>.\<close>

fun join :: "string \<Rightarrow> string list \<Rightarrow> string" where
  "join sep [] = []"
| "join sep [x] = x"
| "join sep (x # y # ys) = x @ sep @ join sep (y # ys)"

text \<open>\<open>c.isspace()\<close> for the code points below 256, and \<open>s.strip()\<close>.\<close>

definition isspace :: "char \<Rightarrow> bool" where
  "isspace c =
     (c \<in> {CHR 0x09, CHR 0x0A, CHR 0x0B, CHR 0x0C, CHR 0x0D, CHR 0x1C, CHR 0x1D, CHR 0x1E,
            CHR 0x1F, CHR 0x20, CHR 0x85, CHR 0xA0})"

definition strip :: "string \<Rightarrow> string" where
  "strip s = rev (dropWhile isspace (rev (dropWhile isspace s)))"

text \<open>
  \<open>s.splitlines()\<close> for the code points below 256: a line ends at \<open>\\n\<close>, \<open>\\r\<close>,
  \<open>\\r\\n\<close>, \<open>\\v\<close>, \<open>\\f\<close>, \<open>\\x1c\<close>, \<open>\\x1d\<close>, \<open>\\x1e\<close> or \<open>\\x85\<close>; the line
  ends are dropped and a final line end opens no further line.
\<close>

definition is_linebreak :: "char \<Rightarrow> bool" where
  "is_linebreak c =
     (c \<in> {CHR 0x0A, CHR 0x0B, CHR 0x0C, CHR 0x0D, CHR 0x1C, CHR 0x1D, CHR 0x1E, CHR 0x85})"

fun splitlines_from :: "string \<Rightarrow> string \<Rightarrow> string list" where
  "splitlines_from acc [] = (if acc = [] then [] else [rev acc])"
| "splitlines_from acc (c # cs) =
     (if c = CHR 0x0D then
        (case cs of
           [] \<Rightarrow> [rev acc]
         | c' # cs' \<Rightarrow>
            if c' = CHR 0x0A then rev acc # splitlines_from [] cs'
            else rev acc # splitlines_from [] cs)
      else if is_linebreak c then rev acc # splitlines_from [] cs
      else splitlines_from (c # acc) cs)"

definition splitlines :: "string \<Rightarrow> string list" where
  "splitlines s = splitlines_from [] s"

section \<open>wrappers/catlist.py\<close>

datatype MachineType =
    Arcade | BIOS | CoinPusher | ConsoleCartridge | Gambling | Handheld | LCDHandheld
  | Redemption | MedalGame | Mechanical | Pinball | PlugAndPlay | PrintClub | Other

record CatlistCategory =
  category :: string
  has_extra :: string
  extra :: string
  components :: "string list"

definition CatlistCategory_init :: "string \<Rightarrow> CatlistCategory" where
  "CatlistCategory_init s =
     (case partition_str s '' * '' of
        (cat, h, e) \<Rightarrow>
          \<lparr>category = cat, has_extra = h, extra = e,
           components = split_str (removeprefix cat ''Arcade: '') '' / ''\<rparr>)"

definition is_arcade :: "CatlistCategory \<Rightarrow> bool" where
  "is_arcade c = startswith (category c) ''Arcade: ''"

definition is_ttl :: "CatlistCategory \<Rightarrow> bool" where
  "is_ttl c = (extra c = ''TTL'')"

definition is_mature :: "CatlistCategory \<Rightarrow> bool" where
  "is_mature c = (extra c = ''Mature'')"

definition is_plug_and_play :: "CatlistCategory \<Rightarrow> error + bool" where
  "is_plug_and_play c =
     (case getitem (components c) 0 of
        Inl e \<Rightarrow> Inl e
      | Inr c0 \<Rightarrow> Inr (c0 = ''Handheld'' \<and> ''Plug n' Play TV Game'' \<in> set (components c)))"

text \<open>The dictionary \<open>genre_types\<close> of \<open>machine_type\<close>.\<close>

definition genre_types :: "string \<rightharpoonup> MachineType" where
  "genre_types =
     [''Slot Machine'' \<mapsto> Gambling, ''Casino'' \<mapsto> Gambling,
      ''Redemption Game'' \<mapsto> Redemption, ''Medal Game'' \<mapsto> MedalGame,
      ''Coin Pusher'' \<mapsto> CoinPusher, ''Print Club'' \<mapsto> PrintClub]"

definition machine_type :: "CatlistCategory \<Rightarrow> error + MachineType" where
  "machine_type c =
     (if category c = ''Arcade: System / BIOS'' then Inr BIOS
      else case getitem (components c) 0 of
        Inl e \<Rightarrow> Inl e
      | Inr c0 \<Rightarrow>
         (case genre_types c0 of
            Some t \<Rightarrow> Inr t
          | None \<Rightarrow>
             if c0 = ''Electromechanical'' then
               (case getitem (components c) 1 of
                  Inl e \<Rightarrow> Inl e
                | Inr c1 \<Rightarrow> if c1 = ''Pinball'' then Inr Pinball else Inr Mechanical)
             else if is_arcade c then Inr Arcade
             else (case is_plug_and_play c of
                     Inl e \<Rightarrow> Inl e
                   | Inr pnp \<Rightarrow>
                      if pnp then Inr PlugAndPlay
                      else if category c = ''Handheld / Electronic Game'' then Inr LCDHandheld
                      else Inr Other)))"

definition genre :: "CatlistCategory \<Rightarrow> error + string option" where
  "genre c =
     (case machine_type c of
        Inl e \<Rightarrow> Inl e
      | Inr t \<Rightarrow>
         if t \<in> {Mechanical, Redemption, MedalGame} then
           (case getitem (components c) 1 of Inl e \<Rightarrow> Inl e | Inr g \<Rightarrow> Inr (Some g))
         else if is_arcade c then
           (case getitem (components c) 0 of Inl e \<Rightarrow> Inl e | Inr g \<Rightarrow> Inr (Some g))
         else (case is_plug_and_play c of
                 Inl e \<Rightarrow> Inl e
               | Inr pnp \<Rightarrow>
                  if pnp \<and> length (components c) > 2 then
                    (case getitem (components c) 2 of Inl e \<Rightarrow> Inl e | Inr g \<Rightarrow> Inr (Some g))
                  else Inr None))"

definition subgenre :: "CatlistCategory \<Rightarrow> error + string option" where
  "subgenre c =
     (case machine_type c of
        Inl e \<Rightarrow> Inl e
      | Inr t \<Rightarrow>
         if t \<in> {Mechanical, Redemption, MedalGame} then
           (if length (components c) > 2 then
              (case getitem (components c) 2 of Inl e \<Rightarrow> Inl e | Inr g \<Rightarrow> Inr (Some g))
            else Inr None)
         else if is_arcade c \<and> length (components c) > 1 then
           (case getitem (components c) 1 of Inl e \<Rightarrow> Inl e | Inr g \<Rightarrow> Inr (Some g))
         else Inr None)"

section \<open>support\_files/cats.py: the loaded category folder\<close>

text \<open>
  A \<open>CatMapping\<close> is the dictionary built by \<open>parse_mame_cat_ini\<close>: section name to the
  set of basenames, in insertion order (the order in which sections first receive a line).
  \<open>CategoryFolder.cats\<close> maps the stem of each ini file to its mapping.
\<close>

type_synonym CatMapping = "(string \<times> string set) list"

record CategoryFolder =
  cats :: "string \<rightharpoonup> CatMapping"

section \<open>user\_data/timer\_db.py\<close>

text \<open>A \<open>timedelta\<close> is its number of microseconds; \<open>timedelta(0)\<close> is \<open>0\<close>.\<close>

type_synonym timedelta = int

record TimerDBRow =
  total_time :: timedelta
  row_play_count :: int
  emulated_time :: timedelta

record TimerDB =
  systems :: "string \<rightharpoonup> TimerDBRow"
  software :: "(string \<times> string) \<rightharpoonup> TimerDBRow"

section \<open>settings.py and the external collaborators\<close>

record MAMESettings =
  xml_path :: "string option"
  cat_path :: "string option"
  plugin_config_home :: "string option"


section \<open>elements/machine\_element.py\<close>

text \<open>A \<open><machine>\<close> element: the attributes and the child text that the wrappers read.\<close>

record MachineElement =
  attrib_name :: string
  attrib_cloneof :: "string option"
  attrib_romof :: "string option"
  description :: "string option"

definition elem_basename :: "MachineElement \<Rightarrow> string" where
  "elem_basename e = attrib_name e"

definition elem_parent_basename :: "MachineElement \<Rightarrow> string option" where
  "elem_parent_basename e = attrib_cloneof e"

definition elem_bios_basename :: "MachineElement \<Rightarrow> string option" where
  "elem_bios_basename e = attrib_romof e"

definition elem_name :: "MachineElement \<Rightarrow> string" where
  "elem_name e = (case description e of None \<Rightarrow> elem_basename e | Some d \<Rightarrow> d)"

text \<open>
  What the process can read: the dictionary of machine elements of the file at each path
  (\<open>get_machine_elements_from_file_as_dict\<close>), the machines the executable lists
  (\<open>MAMEExecutable.listxml\<close>, \<open>KeyError\<close> for any other), the category folder at each path
  and the result of \<open>load_timer_db\<close> at each path.
\<close>

record World =
  xml_file :: "string \<Rightarrow> (string \<rightharpoonup> MachineElement)"
  listxml :: "string \<rightharpoonup> MachineElement"
  load_from_folder :: "string \<Rightarrow> CategoryFolder"
  load_timer_db :: "string \<Rightarrow> error + TimerDB"


section \<open>wrappers/machine.py\<close>

datatype basename_or_element = Basename string | Element MachineElement

text \<open>\<open>d[basename]\<close> on a dictionary.\<close>

definition lookup :: "(string \<rightharpoonup> 'a) \<Rightarrow> string \<Rightarrow> error + 'a" where
  "lookup d k = (case d k of None \<Rightarrow> Inl (KeyError k) | Some v \<Rightarrow> Inr v)"

definition get_machine_element ::
  "World \<Rightarrow> MAMESettings \<Rightarrow> basename_or_element \<Rightarrow> error + MachineElement" where
  "get_machine_element w settings x =
     (case x of
        Element e \<Rightarrow> Inr e
      | Basename b \<Rightarrow>
         (case xml_path settings of
            Some p \<Rightarrow> lookup (xml_file w p) b
          | None \<Rightarrow> lookup (listxml w) b))"

text \<open>The truth value of a \<open>str | None\<close>: neither \<open>None\<close> nor empty.\<close>

fun truthy :: "string option \<Rightarrow> bool" where
  "truthy None = False"
| "truthy (Some s) = (s \<noteq> [])"

datatype Machine =
  Machine (element: MachineElement) (settings: MAMESettings)
    (category_folder: "CategoryFolder option") (parent: "Machine option")
    (bios: "Machine option")

definition name :: "Machine \<Rightarrow> string" where
  "name m = elem_name (element m)"


definition parent_basename :: "Machine \<Rightarrow> string option" where
  "parent_basename m = elem_parent_basename (element m)"

text \<open>\<open>Machine.bios_basename\<close>; the \<open>assert self.parent\<close> fails when there is no parent.\<close>

fun bios_basename :: "Machine \<Rightarrow> error + string option" where
  "bios_basename (Machine el s cf par b) =
     (if truthy (elem_bios_basename el) \<and> elem_bios_basename el = elem_parent_basename el
      then (case par of None \<Rightarrow> Inl AssertionError | Some p \<Rightarrow> bios_basename p)
      else Inr (elem_bios_basename el))"

definition bios_name :: "Machine \<Rightarrow> string option" where
  "bios_name m = (case bios m of None \<Rightarrow> None | Some b \<Rightarrow> Some (name b))"





text \<open>
  \<open>get_machine\<close> and \<open>get_machine_async\<close> call themselves for the parent and the BIOS.
  The first argument bounds the depth of these calls: \<open>None\<close> means that the depth was not
  enough (on cyclic data no depth is).  \<open>Some (Inl e)\<close> is a raised exception.
\<close>

definition resolve_category_folder ::
  "World \<Rightarrow> MAMESettings \<Rightarrow> CategoryFolder option \<Rightarrow> CategoryFolder option" where
  "resolve_category_folder w s cf =
     (case cf of
        Some c \<Rightarrow> Some c
      | None \<Rightarrow> (case cat_path s of Some p \<Rightarrow> Some (load_from_folder w p) | None \<Rightarrow> None))"

text \<open>\<open>get(b) if b else None\<close> for one of the two collaborators.\<close>

definition get_if_truthy ::
  "(string \<Rightarrow> (error + Machine) option) \<Rightarrow> string option \<Rightarrow> (error + Machine option) option"
  where
  "get_if_truthy get b =
     (case b of
        None \<Rightarrow> Some (Inr None)
      | Some x \<Rightarrow>
         if x = [] then Some (Inr None)
         else (case get x of
                 None \<Rightarrow> None
               | Some (Inl e) \<Rightarrow> Some (Inl e)
               | Some (Inr m) \<Rightarrow> Some (Inr (Some m))))"

fun get_machine ::
  "nat \<Rightarrow> World \<Rightarrow> MAMESettings \<Rightarrow> basename_or_element \<Rightarrow> CategoryFolder option
     \<Rightarrow> (error + Machine) option" where
  "get_machine 0 w s x cf0 = None"
| "get_machine (Suc n) w s x cf0 =
     (let cf = resolve_category_folder w s cf0 in
      case get_machine_element w s x of
        Inl e \<Rightarrow> Some (Inl e)
      | Inr el \<Rightarrow>
         (case get_if_truthy (\<lambda>b. get_machine n w s (Basename b) cf) (elem_parent_basename el) of
            None \<Rightarrow> None
          | Some (Inl e) \<Rightarrow> Some (Inl e)
          | Some (Inr par) \<Rightarrow>
             (case get_if_truthy (\<lambda>b. get_machine n w s (Basename b) cf)
                     (elem_bios_basename el) of
                None \<Rightarrow> None
              | Some (Inl e) \<Rightarrow> Some (Inl e)
              | Some (Inr bi) \<Rightarrow> Some (Inr (Machine el s cf par bi)))))"

fun get_machine_async ::
  "nat \<Rightarrow> World \<Rightarrow> MAMESettings \<Rightarrow> basename_or_element \<Rightarrow> CategoryFolder option
     \<Rightarrow> (error + Machine) option" where
  "get_machine_async 0 w s x cf0 = None"
| "get_machine_async (Suc n) w s x cf0 =
     (let cf = resolve_category_folder w s cf0 in
      case get_machine_element w s x of
        Inl e \<Rightarrow> Some (Inl e)
      | Inr el \<Rightarrow>
         (case get_if_truthy (\<lambda>b. get_machine_async n w s (Basename b) cf)
                 (elem_parent_basename el) of
            None \<Rightarrow> None
          | Some (Inl e) \<Rightarrow> Some (Inl e)
          | Some (Inr par) \<Rightarrow>
             (case (case par of Some p \<Rightarrow> bios_basename p | None \<Rightarrow> Inr (elem_bios_basename el)) of
                Inl e \<Rightarrow> Some (Inl e)
              | Inr bb \<Rightarrow>
                 (case get_if_truthy (\<lambda>b. get_machine_async n w s (Basename b) cf) bb of
                    None \<Rightarrow> None
                  | Some (Inl e) \<Rightarrow> Some (Inl e)
                  | Some (Inr bi) \<Rightarrow> Some (Inr (Machine el s cf par bi))))))"

section \<open>support\_files/cats.py: parsing and queries\<close>







section \<open>support\_files/history.py\<close>









section \<open>support\_files/dat.py\<close>

text \<open>
  The loop of \<open>_parse_dat_raw\<close> on \<open>d\<close>, \<open>current_name\<close> and \<open>current_info\<close>; the file is
  the list that \<open>readlines\<close> returns.  \<open>line.split('=', 1)[1]\<close> raises \<open>IndexError\<close> on a
  header without \<open>=\<close>.
\<close>

type_synonym dat_state = "(string \<rightharpoonup> string) \<times> string option \<times> string list"

fun dat_step :: "dat_state \<Rightarrow> string \<Rightarrow> error + dat_state" where
  "dat_step (d, current_name, current_info) raw =
     (let line = strip raw in
      if startswith line ''$info'' then
        (case getitem (split1 line ''='') 1 of
           Inl e \<Rightarrow> Inl e
         | Inr n \<Rightarrow> Inr (d, Some n, []))
      else (case current_name of
              None \<Rightarrow> Inr (d, current_name, current_info)
            | Some n \<Rightarrow>
               if n = [] then Inr (d, current_name, current_info)
               else if line = ''$end''
               then Inr (d(n \<mapsto> join ''\<newline>'' (tl current_info)), None, current_info)
               else Inr (d, current_name, current_info @ [line])))"

fun dat_loop :: "dat_state \<Rightarrow> string list \<Rightarrow> error + dat_state" where
  "dat_loop st [] = Inr st"
| "dat_loop st (raw # f) = (case dat_step st raw of Inl e \<Rightarrow> Inl e | Inr st' \<Rightarrow> dat_loop st' f)"

definition parse_dat_raw :: "string list \<Rightarrow> error + (string \<rightharpoonup> string)" where
  "parse_dat_raw f =
     (case dat_loop (Map.empty, None, []) f of Inl e \<Rightarrow> Inl e | Inr (d, _, _) \<Rightarrow> Inr d)"

text \<open>\<open>DatsFolder.get_dat_info\<close>; \<open>readlines\<close> gives the lines of the file at a path.\<close>

definition get_dat_info ::
  "(string \<Rightarrow> string list) \<Rightarrow> string \<Rightarrow> string \<Rightarrow> string \<Rightarrow> error + string option" where
  "get_dat_info readlines path dat_name b =
     (case parse_dat_raw (readlines (path @ ''/'' @ dat_name @ ''.dat'')) of
        Inl e \<Rightarrow> Inl e
      | Inr d \<Rightarrow> Inr (d b))"

section \<open>support\_files/mameinfo.py\<close>

record MAMEInfoEntry =
  contents :: string
  sections :: "string \<rightharpoonup> string"
  list_sections :: "string \<rightharpoonup> string list"
  recommended_games :: "string \<rightharpoonup> string list"

text \<open>The object under construction together with the local variables of \<open>__init__\<close>.\<close>

record mameinfo_state = MAMEInfoEntry +
  current_section :: string
  current_lines :: "string list"
  current_is_list :: bool

definition normal_sections :: "string set" where
  "normal_sections =
     (\<lambda>s. s @ '':'') ` {''WIP'', ''CHANGES'', ''TODO'', ''TEST MODE'', ''Bugs'', ''NOTE'', ''NOTES'',
        ''SETUP'', ''SETUP and TEST MODE'', ''SERVICE MODE'', ''SETUP/SERVICE MODE'', ''STORY'',
        ''HOW TO PLAY''}"

definition list_section_headers :: "string set" where
  "list_section_headers = (\<lambda>s. s @ '':'') ` {''BIOS'', ''DEVICE'', ''ROMS'', ''Other Emulators''}"

text \<open>The local function \<open>finish\<close>; \<open>x[:-1]\<close> is \<open>butlast x\<close>.\<close>

definition finish :: "mameinfo_state \<Rightarrow> mameinfo_state" where
  "finish st =
     (let lines = filter (\<lambda>liney. liney \<noteq> []) (current_lines st);
          st' = st\<lparr>current_lines := []\<rparr>
      in if startswith (current_section st) ''Recommended Games'' then
           (let key = (if CHR ''('' \<in> set (current_section st)
                       then butlast (removeprefix (current_section st) ''Recommended Games ('')
                       else ''Games'')
            in st'\<lparr>recommended_games := (recommended_games st)(key \<mapsto> lines)\<rparr>)
         else if current_is_list st then
           st'\<lparr>list_sections := (list_sections st)(current_section st \<mapsto> lines)\<rparr>
         else st'\<lparr>sections := (sections st)(current_section st \<mapsto> join ''\<newline>'' lines)\<rparr>)"

text \<open>The body of the loop over the lines.\<close>

definition mameinfo_step :: "mameinfo_state \<Rightarrow> string \<Rightarrow> mameinfo_state" where
  "mameinfo_step st line =
     (if line \<in> normal_sections \<or> line \<in> list_section_headers then
        (finish st)\<lparr>current_section := butlast line,
                    current_is_list := (line \<in> list_section_headers)\<rparr>
      else if startswith line ''Recommended Games'' then
        (finish st)\<lparr>current_section := butlast line\<rparr>
      else if startswith line ''LEVELS:'' then
        (let st' = (finish st)\<lparr>current_section := ''Levels'', current_is_list := False\<rparr>
         in st'\<lparr>sections := (sections st')(''Levels'' \<mapsto> strip (removeprefix line ''LEVELS:''))\<rparr>)
      else if startswith line ''ARCADE RELEASE:'' then
        (let st' = (finish st)\<lparr>current_section := ''Release date'', current_is_list := False\<rparr>
         in st'\<lparr>sections :=
               (sections st')(''Release date'' \<mapsto> strip (removeprefix line ''ARCADE RELEASE:''))\<rparr>)
      else if startswith line ''Romset:'' \<or> startswith line ''CHD:'' then st
      else st\<lparr>current_lines :=
                current_lines st @ [strip (removeprefix (removeprefix line ''- '') ''* '')]\<rparr>)"

text \<open>
  \<open>MAMEInfoEntry.__init__\<close>: the loop runs over the lines of the argument \<open>contents\<close>, and
  the constructor returns when the lines are exhausted.
\<close>

definition MAMEInfoEntry_init :: "string \<Rightarrow> MAMEInfoEntry" where
  "MAMEInfoEntry_init c =
     (let st0 = \<lparr>contents = removeprefix c ''$mame\<newline>'', sections = Map.empty,
                 list_sections = Map.empty, recommended_games = Map.empty,
                 current_section = ''summary'', current_lines = [], current_is_list = False\<rparr>;
          st = foldl mameinfo_step st0 (splitlines c)
      in \<lparr>contents = contents st, sections = sections st, list_sections = list_sections st,
          recommended_games = recommended_games st\<rparr>)"

section \<open>Example data\<close>

text \<open>
  Three machines as \<open>-listxml\<close> describes them: a BIOS, a parent set that runs on it, and
  a clone whose \<open>romof\<close> repeats its \<open>cloneof\<close>.
\<close>

definition neogeo_element :: MachineElement where
  "neogeo_element =
     \<lparr>attrib_name = ''neogeo'', attrib_cloneof = None, attrib_romof = None,
      description = Some ''Neo-Geo MV-6F''\<rparr>"

definition mslug2_element :: MachineElement where
  "mslug2_element =
     \<lparr>attrib_name = ''mslug2'', attrib_cloneof = None, attrib_romof = Some ''neogeo'',
      description = Some ''Metal Slug 2''\<rparr>"

definition mslug2t_element :: MachineElement where
  "mslug2t_element =
     \<lparr>attrib_name = ''mslug2t'', attrib_cloneof = Some ''mslug2'', attrib_romof = Some ''mslug2'',
      description = Some ''Metal Slug 2 Turbo''\<rparr>"

definition plain_settings :: MAMESettings where
  "plain_settings = \<lparr>xml_path = None, cat_path = None, plugin_config_home = None\<rparr>"

definition neogeo_world :: World where
  "neogeo_world =
     \<lparr>xml_file = (\<lambda>p. Map.empty),
      listxml = [''neogeo'' \<mapsto> neogeo_element, ''mslug2'' \<mapsto> mslug2_element,
                 ''mslug2t'' \<mapsto> mslug2t_element],
      load_from_folder = (\<lambda>p. \<lparr>cats = Map.empty\<rparr>),
      load_timer_db = (\<lambda>p. Inl FileNotFoundError)\<rparr>"


definition neogeo_machine :: Machine where
  "neogeo_machine = Machine neogeo_element plain_settings None None None"

definition mslug2_machine :: Machine where
  "mslug2_machine = Machine mslug2_element plain_settings None None (Some neogeo_machine)"

definition mslug2t_machine :: Machine where
  "mslug2t_machine =
     Machine mslug2t_element plain_settings None (Some mslug2_machine) (Some neogeo_machine)"







text \<open>A dat file with two blocks, as \<open>readlines\<close> returns it.\<close>

definition dat_pre :: "string list" where
  "dat_pre = [''# MAMEINFO.DAT\<newline>'']"

definition dat_body :: "string list" where
  "dat_body = [''$mame\<newline>'', ''0.37b5 [Nicola Salmoria]\<newline>'', ''\<newline>'', ''WIP:\<newline>'']"

definition dat_post :: "string list" where
  "dat_post = [''\<newline>'', ''$info=galaga\<newline>'', ''$mame\<newline>'', ''$end\<newline>'']"

definition dat_readlines :: "string \<Rightarrow> string list" where
  "dat_readlines p =
     (if p = ''/dats/mameinfo.dat''
      then dat_pre @ ''$info=puckman\<newline>'' # dat_body @ ''$end\<newline>'' # dat_post
      else [])"

definition dat_parsed :: "string \<rightharpoonup> string" where
  "dat_parsed = [''puckman'' \<mapsto> ''0.37b5 [Nicola Salmoria]\<newline>\<newline>WIP:'', ''galaga'' \<mapsto> []]"

section \<open>Properties of wrappers/catlist.py\<close>

text \<open>
  C3.  The catlist parser is not total.  \<open>machine_type\<close> reads \<open>_components[1]\<close> for a first
  component \<open>Electromechanical\<close> and \<open>genre\<close> reads it for the types Mechanical, Redemption
  and MedalGame, both without looking at the number of components (\<open>subgenre\<close> does look):
  on \<open>Electromechanical\<close> reading the machine type raises \<open>IndexError\<close>, and on
  \<open>Redemption Game\<close> the machine type is Redemption and reading the genre raises
  \<open>IndexError\<close>.
\<close>

theorem catlist_parser_raises:
  "machine_type (CatlistCategory_init ''Electromechanical'') = Inl IndexError
   \<and> machine_type (CatlistCategory_init ''Redemption Game'') = Inr Redemption
   \<and> genre (CatlistCategory_init ''Redemption Game'') = Inl IndexError
   \<and> subgenre (CatlistCategory_init ''Redemption Game'') = Inr None"
  by code_simp

text \<open>
  C8, as the claim states it: the genre of \<open>Electromechanical / Pinball\<close> is not
  \<open>Pinball\<close>.
\<close>

theorem pinball_genre_counterexample:
  "genre (CatlistCategory_init ''Electromechanical / Pinball'') \<noteq> Inr (Some ''Pinball'')"
  by code_simp

text \<open>
  C8, amended.  Parsing \<open>Electromechanical / Pinball\<close> yields the machine type Pinball, no
  genre and no subgenre: Pinball is not among the types whose second component is the
  genre.
\<close>

theorem pinball_classification:
  "machine_type (CatlistCategory_init ''Electromechanical / Pinball'') = Inr Pinball
   \<and> genre (CatlistCategory_init ''Electromechanical / Pinball'') = Inr None
   \<and> subgenre (CatlistCategory_init ''Electromechanical / Pinball'') = Inr None"
  by code_simp

section \<open>Properties of wrappers/machine.py\<close>




text \<open>
  On both surfaces a machine is built with a parent exactly when its element names one,
  so the assertion of \<open>bios_basename\<close> holds for the machines they build.
\<close>

lemma get_if_truthy_Inr:
  "get_if_truthy get b = Some (Inr r) \<Longrightarrow> (r \<noteq> None) = truthy b"
  by (cases b) (auto simp: get_if_truthy_def split: option.splits sum.splits if_splits)

lemma get_machine_parent_present:
  "get_machine n w s x cf = Some (Inr m) \<Longrightarrow> (parent m \<noteq> None) = truthy (parent_basename m)"
  by (cases n)
    (auto simp: Let_def parent_basename_def split: sum.splits option.splits
       dest: get_if_truthy_Inr)

lemma get_machine_async_parent_present:
  "get_machine_async n w s x cf = Some (Inr m)
   \<Longrightarrow> (parent m \<noteq> None) = truthy (parent_basename m)"
  by (cases n)
    (auto simp: Let_def parent_basename_def split: sum.splits option.splits
       dest: get_if_truthy_Inr)

text \<open>
  C1.  The two surfaces differ on a clone whose \<open>romof\<close> repeats its \<open>cloneof\<close>:
  \<open>get_machine\<close> resolves the BIOS from the declared \<open>bios_basename\<close> of the element, which
  is the parent set, while \<open>get_machine_async\<close> resolves it from the corrected
  \<open>bios_basename\<close> of the parent.  For \<open>mslug2t\<close> the blocking surface names the parent
  set \<open>Metal Slug 2\<close> as BIOS and the suspend-capable surface names \<open>Neo-Geo MV-6F\<close>.
\<close>

theorem get_machine_surfaces_differ:
  "map_option (map_sum id bios_name)
     (get_machine 3 neogeo_world plain_settings (Basename ''mslug2t'') None)
     = Some (Inr (Some ''Metal Slug 2''))
   \<and> map_option (map_sum id bios_name)
     (get_machine_async 3 neogeo_world plain_settings (Basename ''mslug2t'') None)
     = Some (Inr (Some ''Neo-Geo MV-6F''))"
  by code_simp

text \<open>
  C2.  For a clone \<open>m\<close> with parent \<open>P\<close> whose declared \<open>bios_basename\<close> equals its
  \<open>parent_basename\<close>, the effective \<open>bios_basename\<close> is the effective \<open>bios_basename\<close> of
  \<open>P\<close>.  Where the declared \<open>bios_basename\<close> differs from the \<open>parent_basename\<close>, and where
  the machine names no parent, the effective \<open>bios_basename\<close> is the declared one.
\<close>

theorem bios_basename_correction:
  "(parent m = Some P \<and> truthy (parent_basename m)
      \<and> elem_bios_basename (element m) = parent_basename m
      \<longrightarrow> bios_basename m = bios_basename P)
   \<and> (elem_bios_basename (element m) \<noteq> parent_basename m
      \<longrightarrow> bios_basename m = Inr (elem_bios_basename (element m)))
   \<and> (\<not> truthy (parent_basename m)
      \<longrightarrow> bios_basename m = Inr (elem_bios_basename (element m)))"
  by (cases m) (auto simp: parent_basename_def)

theorem bios_basename_correction_witness:
  "parent mslug2t_machine = Some mslug2_machine
   \<and> truthy (parent_basename mslug2t_machine)
   \<and> elem_bios_basename (element mslug2t_machine) = parent_basename mslug2t_machine
   \<and> bios_basename mslug2t_machine = bios_basename mslug2_machine
   \<and> elem_bios_basename (element mslug2_machine) \<noteq> parent_basename mslug2_machine
   \<and> \<not> truthy (parent_basename mslug2_machine)
   \<and> bios_basename mslug2_machine = Inr (Some ''neogeo'')"
proof -
  have hyps: "parent mslug2t_machine = Some mslug2_machine
      \<and> truthy (parent_basename mslug2t_machine)
      \<and> elem_bios_basename (element mslug2t_machine) = parent_basename mslug2t_machine"
    by (simp add: mslug2t_machine_def mslug2t_element_def parent_basename_def
          elem_bios_basename_def elem_parent_basename_def)
  have differs: "elem_bios_basename (element mslug2_machine) \<noteq> parent_basename mslug2_machine"
    by (simp add: mslug2_machine_def mslug2_element_def parent_basename_def
          elem_bios_basename_def elem_parent_basename_def)
  have orphan: "\<not> truthy (parent_basename mslug2_machine)"
    by (simp add: mslug2_machine_def mslug2_element_def parent_basename_def
          elem_parent_basename_def)
  have declared: "elem_bios_basename (element mslug2_machine) = Some ''neogeo''"
    by (simp add: mslug2_machine_def mslug2_element_def elem_bios_basename_def)
  from bios_basename_correction [of mslug2t_machine mslug2_machine] hyps
  have "bios_basename mslug2t_machine = bios_basename mslug2_machine" by blast
  moreover from bios_basename_correction [of mslug2_machine mslug2_machine] differs declared
  have "bios_basename mslug2_machine = Inr (Some ''neogeo'')" by simp
  ultimately show ?thesis using hyps differs orphan by blast
qed






section \<open>Properties of support\_files/cats.py\<close>


section \<open>Properties of support\_files/mameinfo.py\<close>

text \<open>
  C4.  The section that is open at the end of the input is not flushed: \<open>finish\<close> is
  called when a header starts the next section, and not after the loop.  On an entry with
  a summary and a \<open>WIP:\<close> section the summary is stored, and the lines of the \<open>WIP\<close> section
  are in none of the buckets; an entry without any header stores nothing.
\<close>

theorem mameinfo_last_section_lost:
  "sections (MAMEInfoEntry_init ''0.37b5 [Nicola Salmoria]\<newline>\<newline>WIP:\<newline>- Fixed sound'')
     = [''summary'' \<mapsto> ''0.37b5 [Nicola Salmoria]'']
   \<and> list_sections
       (MAMEInfoEntry_init ''0.37b5 [Nicola Salmoria]\<newline>\<newline>WIP:\<newline>- Fixed sound'')
     = Map.empty
   \<and> recommended_games
       (MAMEInfoEntry_init ''0.37b5 [Nicola Salmoria]\<newline>\<newline>WIP:\<newline>- Fixed sound'')
     = Map.empty
   \<and> sections (MAMEInfoEntry_init ''0.37b5 [Nicola Salmoria]'') = Map.empty"
proof -
  have l1: "splitlines ''0.37b5 [Nicola Salmoria]\<newline>\<newline>WIP:\<newline>- Fixed sound''
      = [''0.37b5 [Nicola Salmoria]'', [], ''WIP:'', ''- Fixed sound'']"
    by code_simp
  have l2: "splitlines ''0.37b5 [Nicola Salmoria]'' = [''0.37b5 [Nicola Salmoria]'']"
    by code_simp
  have s1: "strip ''0.37b5 [Nicola Salmoria]'' = ''0.37b5 [Nicola Salmoria]''"
    by code_simp
  have s2: "strip ''Fixed sound'' = ''Fixed sound''"
    by code_simp
  have s3: "strip [] = []"
    by code_simp
  have n1: "''0.37b5 [Nicola Salmoria]'' \<notin> normal_sections" "[] \<notin> normal_sections"
    "''- Fixed sound'' \<notin> normal_sections" "''WIP:'' \<in> normal_sections"
    by (simp_all add: normal_sections_def)
  have n2: "''0.37b5 [Nicola Salmoria]'' \<notin> list_section_headers"
    "[] \<notin> list_section_headers" "''- Fixed sound'' \<notin> list_section_headers"
    "''WIP:'' \<notin> list_section_headers"
    by (simp_all add: list_section_headers_def)
  show ?thesis
    by (simp add: MAMEInfoEntry_init_def l1 l2 mameinfo_step_def n1 n2 startswith_def
          removeprefix_def s1 s2 s3 finish_def Let_def)
qed

section \<open>Properties of support\_files/history.py\<close>









section \<open>Properties of support\_files/dat.py\<close>

lemma dat_loop_append:
  "dat_loop st (xs @ ys) = (case dat_loop st xs of Inl e \<Rightarrow> Inl e | Inr st' \<Rightarrow> dat_loop st' ys)"
  by (induction xs arbitrary: st) (auto split: sum.splits)

lemma dat_step_header:
  "strip hdr = ''$info='' @ n \<Longrightarrow> dat_step (d, cn, ci) hdr = Inr (d, Some n, [])"
  by (simp add: startswith_def split1_def getitem_def)

lemma dat_step_end:
  "strip e = ''$end'' \<Longrightarrow> n \<noteq> [] \<Longrightarrow>
   dat_step (d, Some n, ci) e = Inr (d(n \<mapsto> join ''\<newline>'' (tl ci)), None, ci)"
  by (simp add: startswith_def)

lemma dat_loop_body:
  "\<forall>l\<in>set body. \<not> startswith (strip l) ''$info'' \<and> strip l \<noteq> ''$end'' \<Longrightarrow> n \<noteq> [] \<Longrightarrow>
   dat_loop (d, Some n, ci) body = Inr (d, Some n, ci @ map strip body)"
  by (induction body arbitrary: ci) (simp_all add: Let_def)

lemma dat_step_keeps:
  assumes "dat_step (d, cn, ci) l = Inr (d', cn', ci')"
    and "d n = Some v" and "cn \<noteq> Some n"
    and "startswith (strip l) ''$info'' \<longrightarrow> getitem (split1 (strip l) ''='') 1 \<noteq> Inr n"
  shows "d' n = Some v \<and> cn' \<noteq> Some n"
  using assms by (auto simp: Let_def split: if_splits sum.splits option.splits)

lemma dat_loop_keeps:
  assumes "dat_loop (d, cn, ci) post = Inr (d', cn', ci')"
    and "d n = Some v" and "cn \<noteq> Some n"
    and "\<forall>l\<in>set post. startswith (strip l) ''$info'' \<longrightarrow> getitem (split1 (strip l) ''='') 1 \<noteq> Inr n"
  shows "d' n = Some v"
  using assms
proof (induction post arbitrary: d cn ci)
  case Nil
  then show ?case by simp
next
  case (Cons l post)
  from Cons.prems(1) obtain d1 cn1 ci1 where
    step: "dat_step (d, cn, ci) l = Inr (d1, cn1, ci1)"
    and rest: "dat_loop (d1, cn1, ci1) post = Inr (d', cn', ci')"
    by (cases "dat_step (d, cn, ci) l") (auto split: sum.splits)
  from dat_step_keeps [OF step Cons.prems(2,3)] Cons.prems(4)
  have "d1 n = Some v" "cn1 \<noteq> Some n" by simp_all
  with Cons.IH [OF rest] Cons.prems(4) show ?case by simp
qed

text \<open>
  C10.  For a block of the file that consists of a header line \<open>$info=n\<close> with a non-empty
  \<open>n\<close>, body lines, and a line \<open>$end\<close>, in a file that parses without an exception and
  where no later header names \<open>n\<close> again, the content stored for \<open>n\<close> is the body lines
  without the first, each stripped, joined by newlines; \<open>get_dat_info\<close> returns that
  content.
\<close>

theorem dat_block_content:
  assumes lines: "readlines (path @ ''/'' @ dat_name @ ''.dat'') = pre @ hdr # body @ end_line # post"
    and ok: "parse_dat_raw (pre @ hdr # body @ end_line # post) = Inr d"
    and hdr: "strip hdr = ''$info='' @ n" and n: "n \<noteq> []"
    and body: "\<forall>l\<in>set body. \<not> startswith (strip l) ''$info'' \<and> strip l \<noteq> ''$end''"
    and end_line: "strip end_line = ''$end''"
    and post: "\<forall>l\<in>set post. startswith (strip l) ''$info''
                 \<longrightarrow> getitem (split1 (strip l) ''='') 1 \<noteq> Inr n"
  shows "d n = Some (join ''\<newline>'' (tl (map strip body)))
     \<and> get_dat_info readlines path dat_name n = Inr (Some (join ''\<newline>'' (tl (map strip body))))"
proof -
  let ?content = "join ''\<newline>'' (tl (map strip body))"
  from ok obtain cn ci where
    fin: "dat_loop (Map.empty, None, []) (pre @ hdr # body @ end_line # post) = Inr (d, cn, ci)"
    by (auto simp: parse_dat_raw_def split: sum.splits)
  then obtain d0 cn0 ci0 where
    pre: "dat_loop (Map.empty, None, []) pre = Inr (d0, cn0, ci0)"
    and blk: "dat_loop (d0, cn0, ci0) (hdr # body @ end_line # post) = Inr (d, cn, ci)"
    by (cases "dat_loop (Map.empty, None, []) pre") (auto simp: dat_loop_append split: sum.splits)
  have "dat_loop (d0, cn0, ci0) (hdr # body @ end_line # post)
      = dat_loop (d0, Some n, []) (body @ end_line # post)"
    by (simp add: dat_step_header [OF hdr] del: dat_step.simps)
  also have "\<dots> = dat_loop (d0, Some n, map strip body) (end_line # post)"
    by (simp add: dat_loop_append dat_loop_body [OF body n])
  also have "\<dots> = dat_loop (d0(n \<mapsto> ?content), None, map strip body) post"
    by (simp add: dat_step_end [OF end_line n] del: dat_step.simps)
  finally have "dat_loop (d0(n \<mapsto> ?content), None, map strip body) post = Inr (d, cn, ci)"
    using blk by simp
  from dat_loop_keeps [OF this _ _ post, of ?content] have stored: "d n = Some ?content"
    by simp
  then show ?thesis using ok lines by (simp add: get_dat_info_def)
qed

theorem dat_block_content_witness:
  "dat_readlines (''/dats'' @ ''/'' @ ''mameinfo'' @ ''.dat'')
     = dat_pre @ ''$info=puckman\<newline>'' # dat_body @ ''$end\<newline>'' # dat_post
   \<and> parse_dat_raw (dat_pre @ ''$info=puckman\<newline>'' # dat_body @ ''$end\<newline>'' # dat_post)
       = Inr dat_parsed
   \<and> strip ''$info=puckman\<newline>'' = ''$info='' @ ''puckman''
   \<and> strip ''$end\<newline>'' = ''$end''
   \<and> get_dat_info dat_readlines ''/dats'' ''mameinfo'' ''puckman''
       = Inr (Some ''0.37b5 [Nicola Salmoria]\<newline>\<newline>WIP:'')"
proof -
  have strips: "strip ''# MAMEINFO.DAT\<newline>'' = ''# MAMEINFO.DAT''"
    "strip ''$info=puckman\<newline>'' = ''$info=puckman''"
    "strip ''$mame\<newline>'' = ''$mame''"
    "strip ''0.37b5 [Nicola Salmoria]\<newline>'' = ''0.37b5 [Nicola Salmoria]''"
    "strip ''\<newline>'' = []" "strip ''WIP:\<newline>'' = ''WIP:''" "strip ''$end\<newline>'' = ''$end''"
    "strip ''$info=galaga\<newline>'' = ''$info=galaga''"
    by code_simp+
  have lines: "dat_readlines (''/dats'' @ ''/'' @ ''mameinfo'' @ ''.dat'')
      = dat_pre @ ''$info=puckman\<newline>'' # dat_body @ ''$end\<newline>'' # dat_post"
    by (simp add: dat_readlines_def)
  have ok: "parse_dat_raw (dat_pre @ ''$info=puckman\<newline>'' # dat_body @ ''$end\<newline>'' # dat_post)
      = Inr dat_parsed"
    by (simp add: parse_dat_raw_def dat_pre_def dat_body_def dat_post_def dat_parsed_def strips
          startswith_def split1_def getitem_def)
  have hdr: "strip ''$info=puckman\<newline>'' = ''$info='' @ ''puckman''"
    by (simp add: strips)
  have body: "\<forall>l\<in>set dat_body. \<not> startswith (strip l) ''$info'' \<and> strip l \<noteq> ''$end''"
    by (simp add: dat_body_def strips startswith_def)
  have post: "\<forall>l\<in>set dat_post. startswith (strip l) ''$info''
      \<longrightarrow> getitem (split1 (strip l) ''='') 1 \<noteq> Inr ''puckman''"
    by (simp add: dat_post_def strips startswith_def split1_def getitem_def)
  have content: "join ''\<newline>'' (tl (map strip dat_body)) = ''0.37b5 [Nicola Salmoria]\<newline>\<newline>WIP:''"
    by (simp add: dat_body_def strips)
  have name: "''puckman'' \<noteq> []"
    by simp
  from dat_block_content [where readlines = dat_readlines and path = "''/dats''"
      and dat_name = "''mameinfo''" and pre = dat_pre and hdr = "''$info=puckman\<newline>''"
      and body = dat_body and end_line = "''$end\<newline>''" and post = dat_post
      and d = dat_parsed and n = "''puckman''", OF lines ok hdr name body strips(7) post]
    content
  have "get_dat_info dat_readlines ''/dats'' ''mameinfo'' ''puckman''
      = Inr (Some ''0.37b5 [Nicola Salmoria]\<newline>\<newline>WIP:'')"
    by simp
  then show ?thesis using lines ok hdr strips(7) by blast
qed

end
